theory Spec2Isabelle
  imports Complex_Main "HOL-Library.Char_ord" "HOL-Library.List_Lexorder"
begin

section \<open>Data model\<close>

text \<open>
  The cleaning pipeline \<open>limpiar_datos_fifa\<close> works on a pandas DataFrame. A value seen
  by the per-row function \<open>inferir_posicion\<close> is a cell: a null (\<open>None\<close>/\<open>NaN\<close>), a
  number, a text or a timestamp. Numbers are exact rationals: the rounding of float64
  is not part of the model. A row is the pandas Series handed to \<open>inferir_posicion\<close>:
  a finite map from column names to cells (\<open>attr in row\<close> is membership in its domain).
\<close>

datatype celda = Nulo | Num rat | Txt string | Marca int

datatype py_error = TypeError | KeyError | ValueError

type_synonym fila = "string \<rightharpoonup> celda"

section \<open>Stage 2: position inference\<close>

definition gk_attrs :: "string list" where
  "gk_attrs = [''gk_diving'', ''gk_handling'', ''gk_kicking'', ''gk_positioning'', ''gk_reflexes'']"

definition atributos_defensa :: "string list" where
  "atributos_defensa = [''marking'', ''standing_tackle'', ''sliding_tackle'', ''interceptions'']"

definition atributos_medio :: "string list" where
  "atributos_medio = [''vision'', ''short_passing'', ''long_passing'', ''ball_control'']"

definition atributos_ataque :: "string list" where
  "atributos_ataque = [''finishing'', ''shot_power'', ''long_shots'', ''positioning'']"

text \<open>
  \<open>pd.notnull(v) and v > 50\<close>: a null stops at \<open>notnull\<close>; a number is compared; a text
  or a timestamp is not null, and comparing it with the integer 50 raises \<open>TypeError\<close>.
\<close>

fun supera_50 :: "celda \<Rightarrow> py_error + bool" where
  "supera_50 Nulo = Inr False"
| "supera_50 (Num x) = Inr (50 < x)"
| "supera_50 (Txt s) = Inl TypeError"
| "supera_50 (Marca t) = Inl TypeError"

text \<open>
  \<open>any(... for attr in gk_attrs if attr in row)\<close>: the generator is consumed in the order
  of the list, stops at the first true element, and an exception raised by an element
  leaves \<open>any\<close>.
\<close>

fun any_gk :: "fila \<Rightarrow> string list \<Rightarrow> py_error + bool" where
  "any_gk row [] = Inr False"
| "any_gk row (attr # attrs) =
     (case row attr of
        None \<Rightarrow> any_gk row attrs
      | Some v \<Rightarrow>
          (case supera_50 v of
             Inl e \<Rightarrow> Inl e
           | Inr b \<Rightarrow> if b then Inr True else any_gk row attrs))"

text \<open>
  \<open>np.mean\<close> of a non-empty list: a text or a timestamp among the values raises
  \<open>TypeError\<close>.
\<close>

fun numeros :: "celda list \<Rightarrow> py_error + rat list" where
  "numeros [] = Inr []"
| "numeros (Num x # vs) = (case numeros vs of Inl e \<Rightarrow> Inl e | Inr xs \<Rightarrow> Inr (x # xs))"
| "numeros (v # vs) = Inl TypeError"

definition np_mean :: "celda list \<Rightarrow> py_error + rat" where
  "np_mean vs =
     (case numeros vs of
        Inl e \<Rightarrow> Inl e
      | Inr xs \<Rightarrow> Inr (sum_list xs / of_nat (length xs)))"

text \<open>
  \<open>valores = [row.get(attr, 0) for attr in attrs if attr in row and pd.notnull(row.get(attr, 0))]\<close>
\<close>

fun valores_presentes :: "fila \<Rightarrow> string list \<Rightarrow> celda list" where
  "valores_presentes row [] = []"
| "valores_presentes row (attr # attrs) =
     (case row attr of
        None \<Rightarrow> valores_presentes row attrs
      | Some Nulo \<Rightarrow> valores_presentes row attrs
      | Some v \<Rightarrow> v # valores_presentes row attrs)"

definition promedio_atributos :: "fila \<Rightarrow> string list \<Rightarrow> py_error + rat" where
  "promedio_atributos row attrs =
     (let valores = valores_presentes row attrs
      in if valores = [] then Inr 0 else np_mean valores)"

text \<open>The body of the \<open>try\<close> block of \<open>inferir_posicion\<close>.\<close>

definition inferir_posicion_try :: "fila \<Rightarrow> py_error + string" where
  "inferir_posicion_try row =
     (case any_gk row gk_attrs of
        Inl e \<Rightarrow> Inl e
      | Inr gk \<Rightarrow>
          if gk then Inr ''Portero''
          else
            (case promedio_atributos row atributos_defensa of
               Inl e \<Rightarrow> Inl e
             | Inr score_def \<Rightarrow>
            (case promedio_atributos row atributos_medio of
               Inl e \<Rightarrow> Inl e
             | Inr score_med \<Rightarrow>
            (case promedio_atributos row atributos_ataque of
               Inl e \<Rightarrow> Inl e
             | Inr score_ataq \<Rightarrow>
                 if score_ataq > max score_def score_med then Inr ''Delantero''
                 else if score_med > max score_def score_ataq then Inr ''Mediocampista''
                 else if score_def > max score_med score_ataq then Inr ''Defensa''
                 else Inr ''Versatil''))))"

text \<open>The bare \<open>except\<close> turns every exception into the label \<open>Desconocido\<close>.\<close>

definition inferir_posicion :: "fila \<Rightarrow> string" where
  "inferir_posicion row =
     (case inferir_posicion_try row of
        Inl e \<Rightarrow> ''Desconocido''
      | Inr etiqueta \<Rightarrow> etiqueta)"

definition etiquetas :: "string list" where
  "etiquetas = [''Portero'', ''Delantero'', ''Mediocampista'', ''Defensa'', ''Versatil'', ''Desconocido'']"

section \<open>Datasets\<close>

text \<open>
  A DataFrame is a list of named columns; a column carries its dtype with its values:
  a numeric column (\<open>int64\<close>/\<open>float64\<close>, null is \<open>NaN\<close>), an \<open>object\<close> column of
  texts (null is \<open>None\<close>) or a \<open>datetime64\<close> column (nanoseconds, null is \<open>NaT\<close>).
  Column names are taken to be distinct, and all columns have as many values as there are
  rows.
\<close>

datatype valores =
    Numerica "rat option list"
  | Objeto "string option list"
  | Fecha "int option list"

type_synonym columna = "string \<times> valores"

type_synonym dataset = "columna list"

definition no_nulos :: "'a option list \<Rightarrow> 'a list" where
  "no_nulos xs = map the (filter (\<lambda>x. x \<noteq> None) xs)"



section \<open>Stage 3: imputation by position\<close>

text \<open>\<open>Series.median()\<close> over the non-null values; \<open>NaN\<close> (here \<open>None\<close>) when there are none.\<close>

definition mediana :: "rat list \<Rightarrow> rat option" where
  "mediana xs =
     (let s = sort xs; n = length s
      in if n = 0 then None
         else if odd n then Some (s ! (n div 2))
         else Some ((s ! (n div 2 - 1) + s ! (n div 2)) / 2))"

text \<open>The values of a column in the rows whose \<open>posicion_inferida\<close> is \<open>k\<close>.\<close>

definition grupo :: "string list \<Rightarrow> 'a list \<Rightarrow> string \<Rightarrow> 'a list" where
  "grupo pos xs k = map snd (filter (\<lambda>px. fst px = k) (zip pos xs))"

text \<open>\<open>datos.groupby('posicion_inferida', observed=True)[columna].transform('median')\<close>\<close>

definition mediana_por_posicion :: "string list \<Rightarrow> rat option list \<Rightarrow> rat option list" where
  "mediana_por_posicion pos xs = map (\<lambda>k. mediana (no_nulos (grupo pos xs k))) pos"

text \<open>\<open>Series.fillna\<close> with an aligned series, and with a scalar (a \<open>NaN\<close> scalar fills nothing).\<close>

definition fillna :: "'a option list \<Rightarrow> 'a option list \<Rightarrow> 'a option list" where
  "fillna xs ys = map2 (\<lambda>x y. case x of None \<Rightarrow> y | Some v \<Rightarrow> Some v) xs ys"

definition fillna_escalar :: "'a option list \<Rightarrow> 'a option \<Rightarrow> 'a option list" where
  "fillna_escalar xs v = map (\<lambda>x. case x of None \<Rightarrow> v | Some w \<Rightarrow> Some w) xs"

definition imputar_numerica :: "string list \<Rightarrow> rat option list \<Rightarrow> rat option list" where
  "imputar_numerica pos xs =
     (if None \<in> set xs then
        (let xs1 = fillna xs (mediana_por_posicion pos xs)
         in if None \<in> set xs1 then fillna_escalar xs1 (mediana (no_nulos xs1)) else xs1)
      else xs)"

text \<open>
  \<open>x.mode()\<close> lists the most frequent non-null values in ascending order, so \<open>x.mode()[0]\<close>
  is the least of them; the mode of a group without values is empty.
\<close>

definition moda :: "string list \<Rightarrow> string option" where
  "moda xs =
     (let m = fold max (map (count_list xs) xs) 0
      in case sort (filter (\<lambda>v. count_list xs v = m) xs) of
           [] \<Rightarrow> None
         | v # vs \<Rightarrow> Some v)"

definition moda_o_unknown :: "string option list \<Rightarrow> string" where
  "moda_o_unknown x = (case moda (no_nulos x) of None \<Rightarrow> ''Unknown'' | Some v \<Rightarrow> v)"

definition moda_por_posicion :: "string list \<Rightarrow> string option list \<Rightarrow> string option list" where
  "moda_por_posicion pos xs = map (\<lambda>k. Some (moda_o_unknown (grupo pos xs k))) pos"

definition excluidas_categoricas :: "string list" where
  "excluidas_categoricas = [''date'', ''birthday'', ''player_name'', ''posicion_inferida'']"

fun imputar_columna :: "string list \<Rightarrow> columna \<Rightarrow> columna" where
  "imputar_columna pos (n, Numerica xs) = (n, Numerica (imputar_numerica pos xs))"
| "imputar_columna pos (n, Objeto xs) =
     (if n \<notin> set excluidas_categoricas \<and> None \<in> set xs
      then (n, Objeto (fillna xs (moda_por_posicion pos xs)))
      else (n, Objeto xs))"
| "imputar_columna pos (n, Fecha xs) = (n, Fecha xs)"

text \<open>
  Stage 3 of \<open>limpiar_datos_fifa\<close>; \<open>pos\<close> is the column \<open>posicion_inferida\<close> written by
  stage 2, which no loop of this stage changes.
\<close>

definition etapa3 :: "string list \<Rightarrow> dataset \<Rightarrow> dataset" where
  "etapa3 pos datos = map (imputar_columna pos) datos"

section \<open>Stage 5: one-hot encoding\<close>

definition nunique :: "string option list \<Rightarrow> nat" where
  "nunique xs = length (remdups (no_nulos xs))"

fun seleccionada :: "columna \<Rightarrow> bool" where
  "seleccionada (n, Objeto xs) = (n \<notin> set excluidas_categoricas \<and> nunique xs \<le> 15)"
| "seleccionada (n, vs) = False"

text \<open>
  \<open>pd.get_dummies(..., prefix=..., dtype=int)\<close>: one integer column per distinct non-null
  value, in ascending order of the values, named prefix, \<open>_\<close> (the default separator),
  value; a null row is 0 in each of them (\<open>dummy_na\<close> is off).
\<close>

definition niveles :: "string option list \<Rightarrow> string list" where
  "niveles xs = sort (remdups (no_nulos xs))"

definition indicador :: "string option list \<Rightarrow> string \<Rightarrow> rat option list" where
  "indicador xs v = map (\<lambda>x. Some (if x = Some v then 1 else 0)) xs"

fun get_dummies :: "columna \<Rightarrow> columna list" where
  "get_dummies (n, Objeto xs) = map (\<lambda>v. (n @ ''_'' @ v, Numerica (indicador xs v))) (niveles xs)"
| "get_dummies (n, vs) = []"

definition etapa5 :: "dataset \<Rightarrow> dataset" where
  "etapa5 datos =
     (let columnas_categoricas_onehot = filter seleccionada datos
      in if columnas_categoricas_onehot = [] then datos
         else filter (\<lambda>c. fst c \<notin> fst ` set columnas_categoricas_onehot) datos
              @ concat (map get_dummies columnas_categoricas_onehot))"

section \<open>Stage 6: normalisation to 0-100\<close>

definition excluir_normalizacion :: "string list" where
  "excluir_normalizacion = [''id'', ''player_fifa_api_id'', ''player_api_id'', ''edad_estimada'',
     ''score_fisico'', ''score_tecnico'', ''score_mental'']"

text \<open>\<open>Series.min()\<close> and \<open>Series.max()\<close> skip nulls and are \<open>NaN\<close> when nothing is left.\<close>

definition minimo :: "rat option list \<Rightarrow> rat option" where
  "minimo xs = (case no_nulos xs of [] \<Rightarrow> None | v # vs \<Rightarrow> Some (fold min vs v))"

definition maximo :: "rat option list \<Rightarrow> rat option" where
  "maximo xs = (case no_nulos xs of [] \<Rightarrow> None | v # vs \<Rightarrow> Some (fold max vs v))"

text \<open>
  The body of the loop of stage 6. With \<open>NaN\<close> bounds both comparisons are false and the
  column stays as it is; the assignment of the scalar 50 overwrites the whole column.
\<close>

definition normalizar :: "rat option list \<Rightarrow> rat option list" where
  "normalizar xs =
     (case (minimo xs, maximo xs) of
        (Some mn, Some mx) \<Rightarrow>
          if mx > mn then map (map_option (\<lambda>x. (x - mn) * 100 / (mx - mn))) xs
          else if mx = mn then replicate (length xs) (Some 50)
          else xs
      | _ \<Rightarrow> xs)"

fun normalizar_columna :: "columna \<Rightarrow> columna" where
  "normalizar_columna (n, Numerica xs) =
     (if n \<notin> set excluir_normalizacion then (n, Numerica (normalizar xs)) else (n, Numerica xs))"
| "normalizar_columna (n, vs) = (n, vs)"

definition etapa6 :: "dataset \<Rightarrow> dataset" where
  "etapa6 datos = map normalizar_columna datos"

section \<open>Stage 7: outliers\<close>

definition columnas_clave :: "string list" where
  "columnas_clave = [''overall_rating'', ''potential'', ''score_fisico'', ''score_tecnico'',
     ''score_mental'', ''crossing'', ''finishing'', ''short_passing'', ''dribbling'', ''ball_control'']"

text \<open>
  \<open>Series.quantile(q)\<close>: linear interpolation between the two order statistics around
  position \<open>(n - 1) * q\<close> of the sorted non-null values.
\<close>

definition cuantil :: "rat \<Rightarrow> rat list \<Rightarrow> rat option" where
  "cuantil q xs =
     (let s = sort xs; n = length s
      in if n = 0 then None
         else
           (let h = of_nat (n - 1) * q; i = nat \<lfloor>h\<rfloor>; t = h - of_nat i
            in if i + 1 < n then Some (s ! i + t * (s ! (i + 1) - s ! i)) else Some (s ! i)))"

definition clip :: "rat \<Rightarrow> rat \<Rightarrow> rat \<Rightarrow> rat" where
  "clip lower upper x = (if x < lower then lower else if x > upper then upper else x)"

definition limite_inferior :: "rat \<Rightarrow> rat \<Rightarrow> rat" where
  "limite_inferior Q1 Q3 = Q1 - 3 / 2 * (Q3 - Q1)"

definition limite_superior :: "rat \<Rightarrow> rat \<Rightarrow> rat" where
  "limite_superior Q1 Q3 = Q3 + 3 / 2 * (Q3 - Q1)"

definition outliers_count :: "rat \<Rightarrow> rat \<Rightarrow> rat option list \<Rightarrow> nat" where
  "outliers_count lower upper xs = length (filter (\<lambda>x. x < lower \<or> x > upper) (no_nulos xs))"

text \<open>
  The body of the loop of stage 7 on one numeric column: the new values, and the entry
  written to \<open>outliers_tratados\<close> if there is one.
\<close>

definition recortar :: "rat option list \<Rightarrow> rat option list \<times> nat option" where
  "recortar xs =
     (case (cuantil (1 / 4) (no_nulos xs), cuantil (3 / 4) (no_nulos xs)) of
        (Some Q1, Some Q3) \<Rightarrow>
          if Q3 - Q1 > 0 then
            (let lower = limite_inferior Q1 Q3; upper = limite_superior Q1 Q3;
                 cnt = outliers_count lower upper xs
             in if cnt > 0 then (map (map_option (clip lower upper)) xs, Some cnt)
                else (xs, None))
          else (xs, None)
      | _ \<Rightarrow> (xs, None))"

text \<open>
  A key column that is not numeric makes \<open>quantile\<close> or the comparison \<open>IQR > 0\<close> raise;
  the \<open>except: continue\<close> of the loop leaves it as it is.
\<close>

fun recortar_columna :: "columna \<Rightarrow> columna" where
  "recortar_columna (n, Numerica xs) =
     (if n \<in> set columnas_clave then (n, Numerica (fst (recortar xs))) else (n, Numerica xs))"
| "recortar_columna (n, vs) = (n, vs)"

definition outliers_de :: "dataset \<Rightarrow> string \<Rightarrow> (string \<times> nat) list" where
  "outliers_de datos n =
     (case map_of datos n of
        Some (Numerica xs) \<Rightarrow> (case snd (recortar xs) of Some c \<Rightarrow> [(n, c)] | None \<Rightarrow> [])
      | _ \<Rightarrow> [])"

definition etapa7 :: "dataset \<Rightarrow> dataset \<times> (string \<times> nat) list" where
  "etapa7 datos = (map recortar_columna datos, concat (map (outliers_de datos) columnas_clave))"

section \<open>Stage 2 on the dataset\<close>

fun longitud :: "valores \<Rightarrow> nat" where
  "longitud (Numerica xs) = length xs"
| "longitud (Objeto xs) = length xs"
| "longitud (Fecha xs) = length xs"

definition n_filas :: "dataset \<Rightarrow> nat" where
  "n_filas datos = (case datos of [] \<Rightarrow> 0 | c # cs \<Rightarrow> longitud (snd c))"

fun celda_de :: "valores \<Rightarrow> nat \<Rightarrow> celda" where
  "celda_de (Numerica xs) i = (case xs ! i of None \<Rightarrow> Nulo | Some x \<Rightarrow> Num x)"
| "celda_de (Objeto xs) i = (case xs ! i of None \<Rightarrow> Nulo | Some s \<Rightarrow> Txt s)"
| "celda_de (Fecha xs) i = (case xs ! i of None \<Rightarrow> Nulo | Some t \<Rightarrow> Marca t)"

text \<open>Row \<open>i\<close> of the dataset, for \<open>i\<close> below the number of rows.\<close>

definition fila_de :: "dataset \<Rightarrow> nat \<Rightarrow> fila" where
  "fila_de datos i = map_of (map (\<lambda>c. (fst c, celda_de (snd c) i)) datos)"

text \<open>\<open>datos[n] = vs\<close>: replaces the column of that name, or appends a new last column.\<close>

fun asignar :: "string \<Rightarrow> valores \<Rightarrow> dataset \<Rightarrow> dataset" where
  "asignar n vs [] = [(n, vs)]"
| "asignar n vs (c # cs) = (if fst c = n then (n, vs) # cs else c # asignar n vs cs)"

definition posiciones :: "dataset \<Rightarrow> string list" where
  "posiciones datos = map (\<lambda>i. inferir_posicion (fila_de datos i)) [0..<n_filas datos]"

text \<open>\<open>datos['posicion_inferida'] = datos.apply(inferir_posicion, axis=1)\<close>\<close>

definition asignar_posicion :: "dataset \<Rightarrow> dataset" where
  "asignar_posicion datos = asignar ''posicion_inferida'' (Objeto (map Some (posiciones datos))) datos"

text \<open>
  \<open>pd.merge(datos, players_info, on='player_api_id', how='left')\<close>: every row of \<open>datos\<close>
  in its order, once per row of \<open>players_info\<close> with the same key (null keys match each
  other), or once with null identity columns when there is none. A missing key column
  raises \<open>KeyError\<close>, key columns of different dtypes raise \<open>ValueError\<close>.
\<close>

fun mismo_dtype :: "valores \<Rightarrow> valores \<Rightarrow> bool" where
  "mismo_dtype (Numerica xs) (Numerica ys) = True"
| "mismo_dtype (Objeto xs) (Objeto ys) = True"
| "mismo_dtype (Fecha xs) (Fecha ys) = True"
| "mismo_dtype vs ws = False"

definition emparejar :: "valores \<Rightarrow> valores \<Rightarrow> (nat \<times> nat option) list" where
  "emparejar izq der =
     concat (map (\<lambda>i.
       (let js = filter (\<lambda>j. celda_de der j = celda_de izq i) [0..<longitud der]
        in if js = [] then [(i, None)] else map (\<lambda>j. (i, Some j)) js)) [0..<longitud izq])"

definition tomar_lista :: "'a option list \<Rightarrow> nat option list \<Rightarrow> 'a option list" where
  "tomar_lista xs js = map (\<lambda>j. case j of None \<Rightarrow> None | Some k \<Rightarrow> xs ! k) js"

fun tomar :: "valores \<Rightarrow> nat option list \<Rightarrow> valores" where
  "tomar (Numerica xs) js = Numerica (tomar_lista xs js)"
| "tomar (Objeto xs) js = Objeto (tomar_lista xs js)"
| "tomar (Fecha xs) js = Fecha (tomar_lista xs js)"

definition merge_left :: "dataset \<Rightarrow> dataset \<Rightarrow> py_error + dataset" where
  "merge_left datos players_info =
     (case (map_of datos ''player_api_id'', map_of players_info ''player_api_id'') of
        (Some izq, Some der) \<Rightarrow>
          if mismo_dtype izq der then
            (let pares = emparejar izq der
             in Inr (map (\<lambda>c. (fst c, tomar (snd c) (map (\<lambda>p. Some (fst p)) pares))) datos
                     @ map (\<lambda>c. (fst c, tomar (snd c) (map snd pares)))
                         (filter (\<lambda>c. fst c \<noteq> ''player_api_id'') players_info)))
          else Inl ValueError
      | _ \<Rightarrow> Inl KeyError)"

section \<open>Stage 4: derived variables\<close>

definition media :: "rat list \<Rightarrow> rat option" where
  "media xs = (if xs = [] then None else Some (sum_list xs / of_nat (length xs)))"

text \<open>
  The columns of a score, in the order of the attribute list: \<open>DataFrame.mean(axis=1)\<close>
  raises \<open>TypeError\<close> on a column that is not numeric (pandas 2).
\<close>

fun columnas_de_score :: "dataset \<Rightarrow> string list \<Rightarrow> py_error + rat option list list" where
  "columnas_de_score datos [] = Inr []"
| "columnas_de_score datos (attr # attrs) =
     (case map_of datos attr of
        Some (Numerica xs) \<Rightarrow>
          (case columnas_de_score datos attrs of Inl e \<Rightarrow> Inl e | Inr cs \<Rightarrow> Inr (xs # cs))
      | _ \<Rightarrow> Inl TypeError)"

text \<open>\<open>datos[nombre] = datos[atributos].mean(axis=1)\<close>, when an attribute of the list exists.\<close>

definition score :: "string \<Rightarrow> string list \<Rightarrow> dataset \<Rightarrow> py_error + dataset" where
  "score nombre atributos datos =
     (let presentes = filter (\<lambda>attr. attr \<in> fst ` set datos) atributos
      in if presentes = [] then Inr datos
         else
           (case columnas_de_score datos presentes of
              Inl e \<Rightarrow> Inl e
            | Inr cs \<Rightarrow>
                Inr (asignar nombre
                       (Numerica (map (\<lambda>i. media (no_nulos (map (\<lambda>xs. xs ! i) cs)))
                                    [0..<n_filas datos])) datos)))"

definition atributos_fisicos :: "string list" where
  "atributos_fisicos = [''acceleration'', ''sprint_speed'', ''stamina'', ''strength'']"

definition atributos_tecnicos :: "string list" where
  "atributos_tecnicos = [''ball_control'', ''dribbling'', ''short_passing'']"

definition atributos_mentales :: "string list" where
  "atributos_mentales = [''positioning'', ''vision'', ''reactions'']"

text \<open>
  Timestamps are nanoseconds since the epoch. The parser of \<open>pd.to_datetime\<close> is the
  parameter \<open>analizar\<close>: \<open>None\<close> for a text it cannot read. With \<open>errors='coerce'\<close> such a
  text becomes \<open>NaT\<close>; without it (the \<open>date\<close> column) it raises \<open>ValueError\<close>.
\<close>

fun to_datetime_coerce :: "(string \<Rightarrow> int option) \<Rightarrow> valores \<Rightarrow> int option list" where
  "to_datetime_coerce analizar (Objeto xs) =
     map (\<lambda>x. case x of None \<Rightarrow> None | Some s \<Rightarrow> analizar s) xs"
| "to_datetime_coerce analizar (Fecha xs) = xs"
| "to_datetime_coerce analizar (Numerica xs) = map (map_option floor) xs"

fun analizar_todas :: "(string \<Rightarrow> int option) \<Rightarrow> string option list \<Rightarrow> py_error + int option list" where
  "analizar_todas analizar [] = Inr []"
| "analizar_todas analizar (None # xs) =
     (case analizar_todas analizar xs of Inl e \<Rightarrow> Inl e | Inr ts \<Rightarrow> Inr (None # ts))"
| "analizar_todas analizar (Some s # xs) =
     (case analizar s of
        None \<Rightarrow> Inl ValueError
      | Some t \<Rightarrow> (case analizar_todas analizar xs of Inl e \<Rightarrow> Inl e | Inr ts \<Rightarrow> Inr (Some t # ts)))"

fun to_datetime :: "(string \<Rightarrow> int option) \<Rightarrow> valores \<Rightarrow> py_error + int option list" where
  "to_datetime analizar (Objeto xs) = analizar_todas analizar xs"
| "to_datetime analizar (Fecha xs) = Inr xs"
| "to_datetime analizar (Numerica xs) = Inr (map (map_option floor) xs)"

definition maximo_fecha :: "int option list \<Rightarrow> int option" where
  "maximo_fecha xs = (case no_nulos xs of [] \<Rightarrow> None | v # vs \<Rightarrow> Some (fold max vs v))"

text \<open>\<open>pd.Timestamp('2016-01-01')\<close> and the length of a day, in nanoseconds.\<close>

definition ns_por_dia :: int where
  "ns_por_dia = 86400 * 1000000000"

definition referencia_por_defecto :: int where
  "referencia_por_defecto = 16801 * ns_por_dia"

text \<open>\<open>(fecha_referencia - datos['birthday']).dt.days / 365.25\<close>\<close>

definition edad_en_anios :: "int option \<Rightarrow> int option \<Rightarrow> rat option" where
  "edad_en_anios referencia nacimiento =
     (case (referencia, nacimiento) of
        (Some r, Some b) \<Rightarrow> Some (of_int ((r - b) div ns_por_dia) / (1461 / 4))
      | _ \<Rightarrow> None)"

definition edad_estimada :: "(string \<Rightarrow> int option) \<Rightarrow> dataset \<Rightarrow> py_error + dataset" where
  "edad_estimada analizar datos =
     (case map_of datos ''birthday'' of
        Some vs \<Rightarrow>
          (let birthday = to_datetime_coerce analizar vs;
               datos1 = asignar ''birthday'' (Fecha birthday) datos
           in case (case map_of datos1 ''date'' of
                      Some ds \<Rightarrow> (case to_datetime analizar ds of
                                    Inl e \<Rightarrow> Inl e
                                  | Inr ts \<Rightarrow> Inr (maximo_fecha ts))
                    | None \<Rightarrow> Inr (Some referencia_por_defecto)) of
                Inl e \<Rightarrow> Inl e
              | Inr fecha_referencia \<Rightarrow>
                  (let edades = map (edad_en_anios fecha_referencia) birthday
                   in Inr (asignar ''edad_estimada''
                             (Numerica (fillna_escalar edades (mediana (no_nulos edades)))) datos1)))
      | None \<Rightarrow>
          Inr (asignar ''edad_estimada'' (Numerica (replicate (n_filas datos) (Some 25))) datos))"

definition etapa4 :: "(string \<Rightarrow> int option) \<Rightarrow> dataset \<Rightarrow> py_error + dataset" where
  "etapa4 analizar datos =
     (case score ''score_fisico'' atributos_fisicos datos of
        Inl e \<Rightarrow> Inl e
      | Inr d1 \<Rightarrow>
     (case score ''score_tecnico'' atributos_tecnicos d1 of
        Inl e \<Rightarrow> Inl e
      | Inr d2 \<Rightarrow>
     (case score ''score_mental'' atributos_mentales d2 of
        Inl e \<Rightarrow> Inl e
      | Inr d3 \<Rightarrow> edad_estimada analizar d3)))"

section \<open>The pipeline\<close>

text \<open>
  What \<open>limpiar_datos_fifa\<close> meets outside itself: the outcome of the \<open>try\<close> block of
  stage 1 (the connection and the two queries: the message of the exception, or the two
  tables), the date parser, and whether writing the table and writing the CSV file
  raise (\<open>Some\<close> message) for a given dataset. Creating the output directory is taken
  to succeed.
\<close>

record entorno =
  cargar :: "string + dataset \<times> dataset"
  analizar_fecha :: "string \<Rightarrow> int option"
  to_sql :: "dataset \<Rightarrow> string option"
  to_csv :: "dataset \<Rightarrow> string option"

text \<open>The lines printed, one constructor per \<open>print\<close>; their formatting is left out.\<close>

datatype mensaje =
    Encabezado
  | Etapa nat
  | DatosCargados nat nat
  | ErrorAlCargar string
  | PosicionesInferidas "string list"
  | NulosEliminados nat nat
  | EdadCalculada "int option"
  | ColumnasOneHot nat
  | ColumnasNormalizadas nat nat
  | OutliersTratados string nat
  | DatosGuardados
  | ErrorAlGuardar string
  | ResumenFinal nat nat nat

text \<open>
  What a run leaves behind: the printed lines, the table \<open>datos_limpios\<close> and the CSV
  file if they were written, the value returned, and the exception that left the
  function if one did.
\<close>

record resultado =
  impreso :: "mensaje list"
  tabla_datos_limpios :: "dataset option"
  archivo_csv :: "dataset option"
  retorno :: "dataset option"
  excepcion :: "py_error option"

definition nada :: "mensaje list \<Rightarrow> resultado" where
  "nada ms = \<lparr>impreso = ms, tabla_datos_limpios = None, archivo_csv = None,
              retorno = None, excepcion = None\<rparr>"

definition lanzar :: "mensaje list \<Rightarrow> py_error \<Rightarrow> resultado" where
  "lanzar ms e = \<lparr>impreso = ms, tabla_datos_limpios = None, archivo_csv = None,
                  retorno = None, excepcion = Some e\<rparr>"

fun nulos_de :: "valores \<Rightarrow> nat" where
  "nulos_de (Numerica xs) = length (filter (\<lambda>x. x = None) xs)"
| "nulos_de (Objeto xs) = length (filter (\<lambda>x. x = None) xs)"
| "nulos_de (Fecha xs) = length (filter (\<lambda>x. x = None) xs)"

definition nulos :: "dataset \<Rightarrow> nat" where
  "nulos datos = sum_list (map (\<lambda>c. nulos_de (snd c)) datos)"

fun es_normalizable :: "columna \<Rightarrow> bool" where
  "es_normalizable (n, Numerica xs) = (n \<notin> set excluir_normalizacion)"
| "es_normalizable (n, vs) = False"

fun fue_normalizada :: "columna \<Rightarrow> bool" where
  "fue_normalizada (n, Numerica xs) = (n \<notin> set excluir_normalizacion \<and> minimo xs \<noteq> None)"
| "fue_normalizada (n, vs) = False"

text \<open>Stage 8: the table first, then the CSV file; either failure prints and returns.\<close>

definition etapa8 :: "entorno \<Rightarrow> mensaje list \<Rightarrow> dataset \<Rightarrow> resultado" where
  "etapa8 env ms datos =
     (case to_sql env datos of
        Some e \<Rightarrow> nada (ms @ [Etapa 8, ErrorAlGuardar e])
      | None \<Rightarrow>
          (case to_csv env datos of
             Some e \<Rightarrow> (nada (ms @ [Etapa 8, ErrorAlGuardar e]))\<lparr>tabla_datos_limpios := Some datos\<rparr>
           | None \<Rightarrow>
               \<lparr>impreso = ms @ [Etapa 8, DatosGuardados,
                                ResumenFinal (n_filas datos) (length datos) (nulos datos)],
                tabla_datos_limpios = Some datos, archivo_csv = Some datos,
                retorno = Some datos, excepcion = None\<rparr>))"

text \<open>Stages 5 to 8, which raise nothing of their own.\<close>

definition etapas_5_a_8 :: "entorno \<Rightarrow> mensaje list \<Rightarrow> dataset \<Rightarrow> resultado" where
  "etapas_5_a_8 env ms d4 =
     (let d5 = etapa5 d4;
          m5 = Etapa 5 # (if filter seleccionada d4 = [] then [] else [ColumnasOneHot (length d5)]);
          d6 = etapa6 d5;
          m6 = [Etapa 6, ColumnasNormalizadas (length (filter fue_normalizada d5))
                                              (length (filter es_normalizable d5))];
          d7 = fst (etapa7 d6);
          m7 = Etapa 7 # map (\<lambda>p. OutliersTratados (fst p) (snd p)) (snd (etapa7 d6))
      in etapa8 env (ms @ m5 @ m6 @ m7) d7)"

text \<open>Everything after a successful load.\<close>

definition tras_cargar :: "entorno \<Rightarrow> mensaje list \<Rightarrow> dataset \<Rightarrow> dataset \<Rightarrow> resultado" where
  "tras_cargar env ms datos players_info =
     (let ms1 = ms @ [DatosCargados (n_filas datos) (length datos), Etapa 2]
      in case merge_left datos players_info of
           Inl e \<Rightarrow> lanzar ms1 e
         | Inr d1 \<Rightarrow>
             (let d2 = asignar_posicion d1;
                  ms2 = ms1 @ [PosicionesInferidas (posiciones d1), Etapa 3];
                  d3 = etapa3 (posiciones d1) d2;
                  ms3 = ms2 @ [NulosEliminados (nulos d2) (nulos d3), Etapa 4]
              in case etapa4 (analizar_fecha env) d3 of
                   Inl e \<Rightarrow> lanzar ms3 e
                 | Inr d4 \<Rightarrow>
                     etapas_5_a_8 env
                       (ms3 @ (case map_of d3 ''birthday'' of
                                 None \<Rightarrow> []
                               | Some vs \<Rightarrow> [EdadCalculada (case map_of d4 ''date'' of
                                                None \<Rightarrow> Some referencia_por_defecto
                                              | Some ds \<Rightarrow> (case to_datetime (analizar_fecha env) ds of
                                                    Inl e \<Rightarrow> None | Inr ts \<Rightarrow> maximo_fecha ts))]))
                       d4))"

text \<open>
  \<open>limpiar_datos_fifa\<close>: an exception in the \<open>try\<close> block of stage 1 is printed and the
  function returns at once.
\<close>

definition limpiar_datos_fifa :: "entorno \<Rightarrow> resultado" where
  "limpiar_datos_fifa env =
     (case cargar env of
        Inl e \<Rightarrow> nada [Encabezado, Etapa 1, ErrorAlCargar e]
      | Inr tablas \<Rightarrow> tras_cargar env [Encabezado, Etapa 1] (fst tablas) (snd tablas))"

section \<open>Concrete inputs\<close>

text \<open>An earlier goalkeeper attribute holds a text, \<open>gk_reflexes\<close> is 80.\<close>

definition fila_texto_gk :: fila where
  "fila_texto_gk = [''gk_diving'' \<mapsto> Txt ''x'', ''gk_reflexes'' \<mapsto> Num 80]"

text \<open>\<open>gk_reflexes\<close> is 80 and every other attribute is null.\<close>

definition fila_solo_reflejos :: fila where
  "fila_solo_reflejos = (\<lambda>attr. if attr = ''gk_reflexes'' then Some (Num 80) else Some Nulo)"


text \<open>Two rows: a text and a null in \<open>gk_diving\<close>, 80 in \<open>gk_reflexes\<close>.\<close>

definition datos_dos_filas :: dataset where
  "datos_dos_filas = [(''gk_diving'', Objeto [Some ''x'', None]),
                      (''gk_reflexes'', Numerica [Some 80, Some 80])]"

text \<open>The table \<open>Player_Attributes\<close> does not exist in the store.\<close>

definition entorno_sin_tabla :: entorno where
  "entorno_sin_tabla = \<lparr>cargar = Inl ''no such table: Player_Attributes'',
     analizar_fecha = (\<lambda>s. None), to_sql = (\<lambda>d. None), to_csv = (\<lambda>d. None)\<rparr>"


text \<open>Three rows; the second has no match in \<open>Player\<close>, so its name is null.\<close>

definition datos_sin_identidad :: dataset where
  "datos_sin_identidad = [(''overall_rating'', Numerica [Some 60, None, None]),
     (''player_name'', Objeto [Some ''A'', None, Some ''C'']),
     (''preferred_foot'', Objeto [None, None, None])]"


text \<open>The column of the outlier example, under a key name.\<close>

definition datos_outlier :: dataset where
  "datos_outlier =
     [(''overall_rating'', Numerica [Some 1, Some 2, Some 3, Some 4, Some 5, Some 1000])]"

text \<open>The entry of \<open>outliers_tratados\<close> for a column, 0 when the dictionary has none.\<close>

definition outliers_registrados :: "(string \<times> nat) list \<Rightarrow> string \<Rightarrow> nat" where
  "outliers_registrados outliers_tratados n =
     (case map_of outliers_tratados n of None \<Rightarrow> 0 | Some c \<Rightarrow> c)"

text \<open>
  The sum over the given columns of their values in row \<open>i\<close> (\<open>DataFrame.sum(axis=1)\<close>,
  which skips nulls).
\<close>

fun valor_en :: "valores \<Rightarrow> nat \<Rightarrow> rat" where
  "valor_en (Numerica ys) i = (case ys ! i of None \<Rightarrow> 0 | Some y \<Rightarrow> y)"
| "valor_en vs i = 0"

definition suma_fila :: "columna list \<Rightarrow> nat \<Rightarrow> rat" where
  "suma_fila columnas i = sum_list (map (\<lambda>c. valor_en (snd c) i) columnas)"

text \<open>A foot with three values and a null, next to a rating and a free text.\<close>

definition datos_pie :: dataset where
  "datos_pie = [(''overall_rating'', Numerica [Some 60, Some 70, Some 80, Some 90]),
     (''preferred_foot'', Objeto [Some ''right'', None, Some ''left'', Some ''both'']),
     (''player_name'', Objeto [Some ''A'', Some ''B'', Some ''C'', Some ''D''])]"


section \<open>Verified properties\<close>

subsection \<open>Position inference\<close>

lemma any_gk_True:
  "i < length attrs \<Longrightarrow> row (attrs ! i) = Some (Num x) \<Longrightarrow> 50 < x
   \<Longrightarrow> \<forall>j<i. \<forall>s. row (attrs ! j) \<noteq> Some (Txt s)
   \<Longrightarrow> \<forall>j<i. \<forall>t. row (attrs ! j) \<noteq> Some (Marca t)
   \<Longrightarrow> any_gk row attrs = Inr True"
proof (induction attrs arbitrary: i)
  case Nil
  then show ?case by simp
next
  case (Cons a attrs)
  show ?case
  proof (cases i)
    case 0
    with Cons.prems show ?thesis by simp
  next
    case (Suc k)
    from Cons.prems Suc have k: "k < length attrs" "row (attrs ! k) = Some (Num x)" by simp_all
    from Cons.prems(4) Suc have rest: "\<forall>j<k. \<forall>s. row (attrs ! j) \<noteq> Some (Txt s)" by auto
    from Cons.prems(5) Suc have rest': "\<forall>j<k. \<forall>t. row (attrs ! j) \<noteq> Some (Marca t)" by auto
    from Cons.prems(4) Suc have hd: "\<forall>s. row a \<noteq> Some (Txt s)" by auto
    from Cons.prems(5) Suc have hd': "\<forall>t. row a \<noteq> Some (Marca t)" by auto
    have ih: "any_gk row attrs = Inr True" using Cons.IH [OF k \<open>50 < x\<close> rest rest'] .
    show ?thesis
    proof (cases "row a")
      case None
      then show ?thesis using ih by simp
    next
      case (Some v)
      then show ?thesis using ih hd hd' by (cases v) auto
    qed
  qed
qed

lemma map_of_asignar: "map_of (asignar n vs datos) n = Some vs"
  by (induction datos) auto

lemma inferir_posicion_etiqueta: "inferir_posicion row \<in> set etiquetas"
  by (auto simp: inferir_posicion_def inferir_posicion_try_def etiquetas_def split: sum.splits)

text \<open>
  Claim C4, as the code has it. If a goalkeeper attribute of the row holds a number
  strictly greater than 50, and no goalkeeper attribute listed before it holds a value
  that is not a number (a text or a timestamp), \<open>inferir_posicion\<close> returns \<open>Portero\<close>,
  whatever the other attributes of the row are.
\<close>

theorem portero_si_gk_supera_50:
  assumes "i < length gk_attrs" and "row (gk_attrs ! i) = Some (Num x)" and "50 < x"
    and "\<forall>j<i. \<forall>s. row (gk_attrs ! j) \<noteq> Some (Txt s)"
    and "\<forall>j<i. \<forall>t. row (gk_attrs ! j) \<noteq> Some (Marca t)"
  shows "inferir_posicion row = ''Portero''"
  using any_gk_True [OF assms] by (simp add: inferir_posicion_def inferir_posicion_try_def)

text \<open>The row with \<open>gk_reflexes\<close> = 80 and every other attribute null is a \<open>Portero\<close>.\<close>

theorem portero_si_gk_supera_50_witness:
  "4 < length gk_attrs \<and> fila_solo_reflejos (gk_attrs ! 4) = Some (Num 80) \<and> (50::rat) < 80
   \<and> fila_solo_reflejos (gk_attrs ! 0) = Some Nulo \<and> fila_solo_reflejos (gk_attrs ! 1) = Some Nulo
   \<and> fila_solo_reflejos (gk_attrs ! 2) = Some Nulo \<and> fila_solo_reflejos (gk_attrs ! 3) = Some Nulo
   \<and> inferir_posicion fila_solo_reflejos = ''Portero''"
proof -
  have n: "fila_solo_reflejos (gk_attrs ! 0) = Some Nulo" "fila_solo_reflejos (gk_attrs ! 1) = Some Nulo"
    "fila_solo_reflejos (gk_attrs ! 2) = Some Nulo" "fila_solo_reflejos (gk_attrs ! 3) = Some Nulo"
    by (simp_all add: gk_attrs_def fila_solo_reflejos_def)
  have a: "4 < length gk_attrs" by (simp add: gk_attrs_def)
  have b: "fila_solo_reflejos (gk_attrs ! 4) = Some (Num 80)"
    by (simp add: gk_attrs_def fila_solo_reflejos_def)
  have c: "(50::rat) < 80" by simp
  have d: "\<forall>j<4. \<forall>s. fila_solo_reflejos (gk_attrs ! j) \<noteq> Some (Txt s)"
    by (simp add: fila_solo_reflejos_def)
  have e: "\<forall>j<4. \<forall>t. fila_solo_reflejos (gk_attrs ! j) \<noteq> Some (Marca t)"
    by (simp add: fila_solo_reflejos_def)
  from portero_si_gk_supera_50 [OF a b c d e] a b c n show ?thesis by blast
qed

text \<open>
  Claim C4 as written fails: with a text in \<open>gk_diving\<close>, the comparison of that text
  with 50 raises before \<open>gk_reflexes\<close> = 80 is looked at, and the label is
  \<open>Desconocido\<close>.
\<close>

theorem texto_en_gk_anterior_no_es_portero:
  "fila_texto_gk ''gk_reflexes'' = Some (Num 80) \<and> (50::rat) < 80
   \<and> ''gk_reflexes'' \<in> set gk_attrs
   \<and> inferir_posicion fila_texto_gk = ''Desconocido''
   \<and> inferir_posicion fila_texto_gk \<noteq> ''Portero''"
  by (simp add: fila_texto_gk_def gk_attrs_def inferir_posicion_def inferir_posicion_try_def)



text \<open>
  Claim C8. Whenever the body of \<open>inferir_posicion\<close> raises, the label is
  \<open>Desconocido\<close>; the label of every row is one of the six of \<open>etiquetas\<close>; and after
  stage 2 the column \<open>posicion_inferida\<close> holds, for each row, a non-null label of that
  set.
\<close>

theorem desconocido_si_falla:
  "(inferir_posicion_try row = Inl e \<longrightarrow> inferir_posicion row = ''Desconocido'')
   \<and> inferir_posicion row \<in> set etiquetas
   \<and> map_of (asignar_posicion datos) ''posicion_inferida'' = Some (Objeto (map Some (posiciones datos)))
   \<and> length (posiciones datos) = n_filas datos
   \<and> set (posiciones datos) \<subseteq> set etiquetas"
proof -
  have "set (posiciones datos) \<subseteq> set etiquetas"
    unfolding posiciones_def using inferir_posicion_etiqueta by auto
  moreover have "inferir_posicion_try row = Inl e \<longrightarrow> inferir_posicion row = ''Desconocido''"
    by (simp add: inferir_posicion_def)
  ultimately show ?thesis
    by (simp add: inferir_posicion_etiqueta asignar_posicion_def map_of_asignar posiciones_def)
qed

text \<open>A row on which the body raises \<open>TypeError\<close>, and a dataset with such a row.\<close>

theorem desconocido_si_falla_witness:
  "inferir_posicion_try fila_texto_gk = Inl TypeError
   \<and> inferir_posicion fila_texto_gk = ''Desconocido''
   \<and> posiciones datos_dos_filas = [''Desconocido'', ''Portero'']"
proof -
  have a: "inferir_posicion_try fila_texto_gk = Inl TypeError"
    by (simp add: fila_texto_gk_def gk_attrs_def inferir_posicion_try_def)
  have b: "posiciones datos_dos_filas = [''Desconocido'', ''Portero'']"
    by (simp add: posiciones_def datos_dos_filas_def n_filas_def fila_de_def upt_rec
        inferir_posicion_def inferir_posicion_try_def gk_attrs_def)
  from desconocido_si_falla [of fila_texto_gk TypeError datos_dos_filas] a b show ?thesis by simp
qed

subsection \<open>Failure of the load\<close>

text \<open>
  Claim C9. If the load fails, \<open>limpiar_datos_fifa\<close> prints the error and returns: the
  only lines printed are the header, the header of stage 1 and the error, neither the
  table nor the CSV file is written, and nothing is returned.
\<close>

theorem aborta_si_falla_la_carga:
  assumes "cargar env = Inl e"
  shows "limpiar_datos_fifa env =
           \<lparr>impreso = [Encabezado, Etapa 1, ErrorAlCargar e], tabla_datos_limpios = None,
            archivo_csv = None, retorno = None, excepcion = None\<rparr>"
  using assms by (simp add: limpiar_datos_fifa_def nada_def)

text \<open>A store without the table \<open>Player_Attributes\<close>.\<close>

theorem aborta_si_falla_la_carga_witness:
  "cargar entorno_sin_tabla = Inl ''no such table: Player_Attributes''
   \<and> tabla_datos_limpios (limpiar_datos_fifa entorno_sin_tabla) = None
   \<and> archivo_csv (limpiar_datos_fifa entorno_sin_tabla) = None
   \<and> impreso (limpiar_datos_fifa entorno_sin_tabla)
       = [Encabezado, Etapa 1, ErrorAlCargar ''no such table: Player_Attributes'']"
proof -
  have a: "cargar entorno_sin_tabla = Inl ''no such table: Player_Attributes''"
    by (simp add: entorno_sin_tabla_def)
  from aborta_si_falla_la_carga [OF a] a show ?thesis by simp
qed

subsection \<open>Imputation\<close>


lemma set_no_nulos: "set (no_nulos xs) = {x. Some x \<in> set xs}"
  by (force simp: no_nulos_def image_iff)









text \<open>Stage 3 on the three rows: medians, the mode \<open>Unknown\<close>, and the name left null.\<close>

lemma etapa3_ejemplo:
  "etapa3 [''Versatil'', ''Versatil'', ''Portero''] datos_sin_identidad =
     [(''overall_rating'', Numerica [Some 60, Some 60, Some 60]),
      (''player_name'', Objeto [Some ''A'', None, Some ''C'']),
      (''preferred_foot'', Objeto [Some ''Unknown'', Some ''Unknown'', Some ''Unknown''])]"
  by (simp add: etapa3_def datos_sin_identidad_def excluidas_categoricas_def
      imputar_numerica_def fillna_def fillna_escalar_def mediana_por_posicion_def
      moda_por_posicion_def moda_o_unknown_def moda_def grupo_def no_nulos_def mediana_def)



subsection \<open>Normalisation\<close>












subsection \<open>Outliers\<close>

lemma clip_en_rango: "lower \<le> upper \<Longrightarrow> lower \<le> clip lower upper x \<and> clip lower upper x \<le> upper"
  by (simp add: clip_def)

lemma sin_outliers:
  assumes "outliers_count lower upper xs = 0"
  shows "map (map_option (clip lower upper)) xs = xs"
proof -
  have "\<not> (x < lower \<or> x > upper)" if "Some x \<in> set xs" for x
  proof -
    from that have "x \<in> set (no_nulos xs)" by (simp add: set_no_nulos)
    with assms show ?thesis
      by (auto simp: outliers_count_def filter_empty_conv)
  qed
  then have "map_option (clip lower upper) z = z" if "z \<in> set xs" for z
    using that by (cases z) (auto simp: clip_def)
  then show ?thesis by (simp add: map_idI)
qed

lemma recortar_iqr_positivo:
  assumes "cuantil (1 / 4) (no_nulos xs) = Some Q1" and "cuantil (3 / 4) (no_nulos xs) = Some Q3"
    and "Q3 - Q1 > 0"
  shows "fst (recortar xs) = map (map_option (clip (limite_inferior Q1 Q3) (limite_superior Q1 Q3))) xs"
    and "(case snd (recortar xs) of None \<Rightarrow> 0 | Some c \<Rightarrow> c)
           = outliers_count (limite_inferior Q1 Q3) (limite_superior Q1 Q3) xs"
  using assms by (auto simp: recortar_def Let_def sin_outliers)

lemma recortar_iqr_cero:
  assumes "cuantil (1 / 4) (no_nulos xs) = Some Q1" and "cuantil (3 / 4) (no_nulos xs) = Some Q3"
    and "Q3 - Q1 = 0"
  shows "recortar xs = (xs, None)"
  using assms by (simp add: recortar_def)

lemma map_of_outliers_otro: "k \<noteq> n \<Longrightarrow> map_of (outliers_de datos k) n = None"
  by (simp add: outliers_de_def split: option.splits valores.splits)

lemma map_of_outliers:
  "distinct ks \<Longrightarrow> map_of (concat (map (outliers_de datos) ks)) n
     = (if n \<in> set ks then map_of (outliers_de datos n) n else None)"
proof (induction ks)
  case Nil
  then show ?case by simp
next
  case (Cons k ks)
  show ?case
  proof (cases "k = n")
    case True
    with Cons show ?thesis
      by (auto simp: map_add_def split: option.splits)
  next
    case False
    with Cons show ?thesis
      by (simp add: map_add_def map_of_outliers_otro)
  qed
qed

lemma distinct_columnas_clave: "distinct columnas_clave"
  by (simp add: columnas_clave_def)

lemma outliers_registrados_etapa7:
  assumes "(n, Numerica xs) \<in> set datos" and "distinct (map fst datos)"
    and "n \<in> set columnas_clave"
  shows "outliers_registrados (snd (etapa7 datos)) n
           = (case snd (recortar xs) of None \<Rightarrow> 0 | Some c \<Rightarrow> c)"
proof -
  have "map_of datos n = Some (Numerica xs)" using assms(1,2) by simp
  then have "map_of (outliers_de datos n) n = snd (recortar xs)"
    by (simp add: outliers_de_def split: option.splits)
  then show ?thesis
    using assms(3)
    by (simp add: outliers_registrados_def etapa7_def map_of_outliers distinct_columnas_clave)
qed

lemma recortar_ejemplo:
  "recortar [Some 1, Some 2, Some 3, Some 4, Some 5, Some 1000]
     = ([Some 1, Some 2, Some 3, Some 4, Some 5, Some (17 / 2)], Some 1)"
  by code_simp

text \<open>
  Claim C7. For a numeric column of the allowlist with quartiles \<open>Q1\<close> and \<open>Q3\<close>: if
  \<open>Q3 - Q1\<close> is positive, stage 7 clips every value into
  \<open>[Q1 - 1.5 (Q3 - Q1), Q3 + 1.5 (Q3 - Q1)]\<close>, keeps every row, and the count recorded
  for the column is the number of values that were outside these bounds; if it is 0,
  the column is left as it is and nothing is recorded. On \<open>[1,2,3,4,5,1000]\<close> the value
  1000 becomes the upper bound 8.5 and the count is 1.
\<close>

theorem recorte_iqr:
  assumes "i < length datos" and "datos ! i = (n, Numerica xs)"
    and "n \<in> set columnas_clave" and "distinct (map fst datos)"
    and "cuantil (1 / 4) (no_nulos xs) = Some Q1" and "cuantil (3 / 4) (no_nulos xs) = Some Q3"
  shows "(Q3 - Q1 > 0 \<longrightarrow>
            fst (etapa7 datos) ! i
              = (n, Numerica (map (map_option (clip (limite_inferior Q1 Q3) (limite_superior Q1 Q3))) xs))
          \<and> (\<forall>v. Some v \<in> set (map (map_option (clip (limite_inferior Q1 Q3) (limite_superior Q1 Q3))) xs)
                \<longrightarrow> limite_inferior Q1 Q3 \<le> v \<and> v \<le> limite_superior Q1 Q3)
          \<and> outliers_registrados (snd (etapa7 datos)) n
              = outliers_count (limite_inferior Q1 Q3) (limite_superior Q1 Q3) xs)
     \<and> (Q3 - Q1 = 0 \<longrightarrow>
            fst (etapa7 datos) ! i = (n, Numerica xs)
          \<and> outliers_registrados (snd (etapa7 datos)) n = 0)
     \<and> recortar [Some 1, Some 2, Some 3, Some 4, Some 5, Some 1000]
          = ([Some 1, Some 2, Some 3, Some 4, Some 5, Some (17 / 2)], Some 1)"
proof -
  have col: "fst (etapa7 datos) ! i = (n, Numerica (fst (recortar xs)))"
    using assms(1-3) by (simp add: etapa7_def)
  have mem: "(n, Numerica xs) \<in> set datos"
    using assms(1,2) by (metis nth_mem)
  note reg = outliers_registrados_etapa7 [OF mem assms(4) assms(3)]
  have pos: ?thesis if iqr: "Q3 - Q1 > 0"
  proof -
    have "0 \<le> 3 / 2 * (Q3 - Q1)" using iqr by simp
    then have orden: "limite_inferior Q1 Q3 \<le> limite_superior Q1 Q3"
      unfolding limite_inferior_def limite_superior_def using iqr by linarith
    have "limite_inferior Q1 Q3 \<le> v \<and> v \<le> limite_superior Q1 Q3"
      if "Some v \<in> set (map (map_option (clip (limite_inferior Q1 Q3) (limite_superior Q1 Q3))) xs)" for v
    proof -
      from that obtain z
        where vz: "Some v = map_option (clip (limite_inferior Q1 Q3) (limite_superior Q1 Q3)) z"
        by auto
      obtain x where "v = clip (limite_inferior Q1 Q3) (limite_superior Q1 Q3) x"
        using vz by (cases z) auto
      then show ?thesis using clip_en_rango [OF orden] by simp
    qed
    then show ?thesis
      using iqr col reg recortar_iqr_positivo [OF assms(5,6) iqr] recortar_ejemplo
      by simp
  qed
  have cero: ?thesis if iqr: "Q3 - Q1 = 0"
    using iqr col reg recortar_iqr_cero [OF assms(5,6) iqr] recortar_ejemplo by simp
  show ?thesis
  proof (cases "Q3 - Q1 > 0")
    case True
    then show ?thesis by (rule pos)
  next
    case False
    show ?thesis
    proof (cases "Q3 - Q1 = 0")
      case True
      then show ?thesis by (rule cero)
    next
      case ne: False
      with False recortar_ejemplo show ?thesis by simp
    qed
  qed
qed

text \<open>The example column under the name \<open>overall_rating\<close>.\<close>

theorem recorte_iqr_witness:
  "0 < length datos_outlier
   \<and> datos_outlier ! 0 = (''overall_rating'', Numerica [Some 1, Some 2, Some 3, Some 4, Some 5, Some 1000])
   \<and> ''overall_rating'' \<in> set columnas_clave \<and> distinct (map fst datos_outlier)
   \<and> cuantil (1 / 4) (no_nulos [Some 1, Some 2, Some 3, Some 4, Some 5, Some 1000]) = Some (9 / 4)
   \<and> cuantil (3 / 4) (no_nulos [Some 1, Some 2, Some 3, Some 4, Some 5, Some 1000]) = Some (19 / 4)
   \<and> (19 / 4 - 9 / 4 :: rat) > 0
   \<and> limite_superior (9 / 4) (19 / 4) = 17 / 2
   \<and> outliers_registrados (snd (etapa7 datos_outlier)) ''overall_rating'' = 1
   \<and> fst (etapa7 datos_outlier)
       = [(''overall_rating'', Numerica [Some 1, Some 2, Some 3, Some 4, Some 5, Some (17 / 2)])]"
proof -
  let ?xs = "[Some 1, Some 2, Some 3, Some 4, Some 5, Some (1000 :: rat)]"
  have a: "0 < length datos_outlier" by (simp add: datos_outlier_def)
  have b: "datos_outlier ! 0 = (''overall_rating'', Numerica ?xs)"
    by (simp add: datos_outlier_def)
  have c: "''overall_rating'' \<in> set columnas_clave" by (simp add: columnas_clave_def)
  have d: "distinct (map fst datos_outlier)" by (simp add: datos_outlier_def)
  have e: "cuantil (1 / 4) (no_nulos ?xs) = Some (9 / 4)" by code_simp
  have f: "cuantil (3 / 4) (no_nulos ?xs) = Some (19 / 4)" by code_simp
  have g: "(19 / 4 - 9 / 4 :: rat) > 0" by simp
  have h: "limite_superior (9 / 4) (19 / 4) = 17 / 2" "limite_inferior (9 / 4) (19 / 4) = - (3 / 2)"
    by (simp_all add: limite_superior_def limite_inferior_def)
  have k: "outliers_count (- (3 / 2)) (17 / 2) ?xs = 1"
    by (simp add: outliers_count_def no_nulos_def)
  have l: "map (map_option (clip (- (3 / 2)) (17 / 2))) ?xs
             = [Some 1, Some 2, Some 3, Some 4, Some 5, Some (17 / 2)]"
    by (simp add: clip_def)
  have m: "fst (etapa7 datos_outlier) = [fst (etapa7 datos_outlier) ! 0]"
    by (simp add: etapa7_def datos_outlier_def)
  from recorte_iqr [OF a b c d e f] g h k l
  have "fst (etapa7 datos_outlier) ! 0
          = (''overall_rating'', Numerica [Some 1, Some 2, Some 3, Some 4, Some 5, Some (17 / 2)])"
    and "outliers_registrados (snd (etapa7 datos_outlier)) ''overall_rating'' = 1"
    by simp_all
  with m a b c d e f g h show ?thesis by simp
qed

subsection \<open>One-hot encoding\<close>

lemma set_niveles: "set (niveles xs) = {v. Some v \<in> set xs}"
  by (simp add: niveles_def set_no_nulos)

lemma distinct_niveles: "distinct (niveles xs)"
  by (simp add: niveles_def)

lemma length_niveles: "length (niveles xs) = nunique xs"
  by (simp add: niveles_def nunique_def)

lemma nunique_card: "nunique xs = card {v. Some v \<in> set xs}"
  by (simp add: nunique_def length_remdups_card_conv set_no_nulos)

lemma suma_indicadores:
  "distinct vs \<Longrightarrow> (\<Sum>v\<leftarrow>vs. if x = Some v then 1 else 0) = (if x \<in> Some ` set vs then (1::rat) else 0)"
  by (induction vs) auto

lemma suma_fila_dummies:
  assumes "i < length xs"
  shows "suma_fila (get_dummies (n, Objeto xs)) i = (if xs ! i = None then 0 else 1)"
proof -
  have "suma_fila (get_dummies (n, Objeto xs)) i
          = (\<Sum>v\<leftarrow>niveles xs. if xs ! i = Some v then 1 else 0)"
    using assms by (simp add: suma_fila_def indicador_def comp_def)
  also have "\<dots> = (if xs ! i \<in> Some ` set (niveles xs) then 1 else 0)"
    by (rule suma_indicadores) (rule distinct_niveles)
  also have "\<dots> = (if xs ! i = None then 0 else 1)"
  proof (cases "xs ! i")
    case None
    then show ?thesis by auto
  next
    case (Some v)
    then have "Some v \<in> set xs" using assms by (metis nth_mem)
    with Some show ?thesis by (simp add: set_niveles image_iff)
  qed
  finally show ?thesis .
qed

lemma etapa5_forma:
  assumes "distinct (map fst datos)"
  shows "etapa5 datos = filter (\<lambda>c. \<not> seleccionada c) datos
                        @ concat (map get_dummies (filter seleccionada datos))"
proof (cases "filter seleccionada datos = []")
  case True
  then have "filter (\<lambda>c. \<not> seleccionada c) datos = datos"
    by (simp add: filter_empty_conv)
  with True show ?thesis by (simp add: etapa5_def)
next
  case False
  have "(fst c \<notin> fst ` set (filter seleccionada datos)) = (\<not> seleccionada c)"
    if c: "c \<in> set datos" for c
  proof
    assume "fst c \<notin> fst ` set (filter seleccionada datos)"
    with c show "\<not> seleccionada c" by force
  next
    assume ns: "\<not> seleccionada c"
    show "fst c \<notin> fst ` set (filter seleccionada datos)"
    proof
      assume "fst c \<in> fst ` set (filter seleccionada datos)"
      then obtain d where d: "d \<in> set datos" "seleccionada d" "fst d = fst c" by auto
      from assms have "inj_on fst (set datos)" by (simp add: distinct_map)
      with c d have "d = c" by (auto dest: inj_onD)
      with d ns show False by simp
    qed
  qed
  then have "filter (\<lambda>c. fst c \<notin> fst ` set (filter seleccionada datos)) datos
               = filter (\<lambda>c. \<not> seleccionada c) datos"
    by (intro filter_cong refl) blast
  with False show ?thesis by (simp add: etapa5_def Let_def)
qed

lemma dummies_en_etapa5:
  assumes "c \<in> set datos" and "seleccionada c"
  shows "set (get_dummies c) \<subseteq> set (etapa5 datos)"
proof -
  from assms have "filter seleccionada datos \<noteq> []" by (auto simp: filter_empty_conv)
  with assms show ?thesis by (auto simp: etapa5_def Let_def)
qed

lemma no_seleccionada_en_etapa5:
  assumes "c \<in> set datos" and "\<not> seleccionada c" and "distinct (map fst datos)"
  shows "c \<in> set (etapa5 datos)"
  using assms by (simp add: etapa5_forma)

lemma etapa5_ejemplo:
  "etapa5 datos_pie =
     [(''overall_rating'', Numerica [Some 60, Some 70, Some 80, Some 90]),
      (''player_name'', Objeto [Some ''A'', Some ''B'', Some ''C'', Some ''D'']),
      (''preferred_foot_both'', Numerica [Some 0, Some 0, Some 0, Some 1]),
      (''preferred_foot_left'', Numerica [Some 0, Some 0, Some 1, Some 0]),
      (''preferred_foot_right'', Numerica [Some 1, Some 0, Some 0, Some 0])]"
  by code_simp

text \<open>
  Claim C6, as the code has it. The encoder selects exactly the \<open>object\<close> columns outside
  \<open>date\<close>, \<open>birthday\<close>, \<open>player_name\<close>, \<open>posicion_inferida\<close> with at most 15 distinct
  values; the result is the unselected columns, unchanged, followed by the indicator
  columns of the selected ones; a selected column gives one 0/1 column per distinct
  non-null value, named source name, underscore, value; with 3 distinct values there
  are 3 of them; their sum in a row is 1 where the source is not null and 0 where it
  is; a column with more than 15 distinct values stays in the result as it is.
\<close>

theorem codificacion_one_hot:
  assumes "distinct (map fst datos)"
  shows "seleccionada (n, vs)
           = (\<exists>ys. vs = Objeto ys \<and> n \<notin> set excluidas_categoricas \<and> card {v. Some v \<in> set ys} \<le> 15)
     \<and> etapa5 datos = filter (\<lambda>c. \<not> seleccionada c) datos
                       @ concat (map get_dummies (filter seleccionada datos))
     \<and> get_dummies (n, Objeto xs)
         = map (\<lambda>v. (n @ ''_'' @ v, Numerica (map (\<lambda>x. Some (if x = Some v then 1 else 0)) xs)))
             (niveles xs)
     \<and> distinct (niveles xs) \<and> set (niveles xs) = {v. Some v \<in> set xs}
     \<and> (card {v. Some v \<in> set xs} = 3 \<longrightarrow> length (get_dummies (n, Objeto xs)) = 3)
     \<and> (\<forall>i<length xs. suma_fila (get_dummies (n, Objeto xs)) i = (if xs ! i = None then 0 else 1))
     \<and> (\<forall>c\<in>set datos. (\<exists>m ys. c = (m, Objeto ys) \<and> card {v. Some v \<in> set ys} > 15)
           \<longrightarrow> c \<in> set (etapa5 datos))"
proof -
  have sel: "seleccionada (n, vs)
           = (\<exists>ys. vs = Objeto ys \<and> n \<notin> set excluidas_categoricas \<and> card {v. Some v \<in> set ys} \<le> 15)"
    by (cases vs) (simp_all add: nunique_card)
  have dum: "get_dummies (n, Objeto xs)
         = map (\<lambda>v. (n @ ''_'' @ v, Numerica (map (\<lambda>x. Some (if x = Some v then 1 else 0)) xs)))
             (niveles xs)"
    by (simp add: indicador_def)
  have tres: "card {v. Some v \<in> set xs} = 3 \<longrightarrow> length (get_dummies (n, Objeto xs)) = 3"
    by (simp add: length_niveles nunique_card)
  have resto: "c \<in> set (etapa5 datos)"
    if "c \<in> set datos" and "\<exists>m ys. c = (m, Objeto ys) \<and> card {v. Some v \<in> set ys} > 15" for c
  proof -
    from that(2) have "\<not> seleccionada c" by (auto simp: nunique_card)
    with that(1) assms show ?thesis by (simp add: no_seleccionada_en_etapa5)
  qed
  show ?thesis
    using sel dum tres resto etapa5_forma [OF assms] suma_fila_dummies [of _ xs n]
      distinct_niveles [of xs] set_niveles [of xs]
    by blast
qed

text \<open>A foot with three values and a null.\<close>

theorem codificacion_one_hot_witness:
  "distinct (map fst datos_pie)
   \<and> card {v. Some v \<in> set [Some ''right'', None, Some ''left'', Some ''both'']} = 3
   \<and> length (get_dummies (''preferred_foot'', Objeto [Some ''right'', None, Some ''left'', Some ''both''])) = 3
   \<and> suma_fila (get_dummies (''preferred_foot'', Objeto [Some ''right'', None, Some ''left'', Some ''both''])) 0 = 1
   \<and> suma_fila (get_dummies (''preferred_foot'', Objeto [Some ''right'', None, Some ''left'', Some ''both''])) 1 = 0
   \<and> etapa5 datos_pie =
     [(''overall_rating'', Numerica [Some 60, Some 70, Some 80, Some 90]),
      (''player_name'', Objeto [Some ''A'', Some ''B'', Some ''C'', Some ''D'']),
      (''preferred_foot_both'', Numerica [Some 0, Some 0, Some 0, Some 1]),
      (''preferred_foot_left'', Numerica [Some 0, Some 0, Some 1, Some 0]),
      (''preferred_foot_right'', Numerica [Some 1, Some 0, Some 0, Some 0])]"
proof -
  let ?xs = "[Some ''right'', None, Some ''left'', Some ''both'']"
  have a: "distinct (map fst datos_pie)" by (simp add: datos_pie_def)
  have "nunique ?xs = 3" by code_simp
  then have b: "card {v. Some v \<in> set ?xs} = 3" by (simp only: nunique_card)
  have c: "(0::nat) < length ?xs" "(1::nat) < length ?xs" "?xs ! 0 \<noteq> None" "?xs ! 1 = None"
    by simp_all
  note t = codificacion_one_hot [OF a, of "''preferred_foot''" "Objeto ?xs" ?xs]
  from t b have d: "length (get_dummies (''preferred_foot'', Objeto ?xs)) = 3" by blast
  from t c(1) have "suma_fila (get_dummies (''preferred_foot'', Objeto ?xs)) 0
                      = (if ?xs ! 0 = None then 0 else 1)" by blast
  then have e: "suma_fila (get_dummies (''preferred_foot'', Objeto ?xs)) 0 = 1" by simp
  from t c(2) have "suma_fila (get_dummies (''preferred_foot'', Objeto ?xs)) 1
                      = (if ?xs ! 1 = None then 0 else 1)" by blast
  then have f: "suma_fila (get_dummies (''preferred_foot'', Objeto ?xs)) 1 = 0" by simp
  from a b d e f etapa5_ejemplo show ?thesis by simp
qed

text \<open>
  Claim C6 as written fails in the names: the indicator column of \<open>left\<close> in
  \<open>preferred_foot\<close> is \<open>preferred_foot_left\<close>, not the two texts joined.
\<close>

theorem nombre_con_separador:
  "get_dummies (''preferred_foot'', Objeto [Some ''left'', Some ''right''])
     = [(''preferred_foot_left'', Numerica [Some 1, Some 0]),
        (''preferred_foot_right'', Numerica [Some 0, Some 1])]
   \<and> ''preferred_foot_left'' \<noteq> ''preferred_foot'' @ ''left''"
  by code_simp

text \<open>
  Claim C10. In a selected column, a row with a null value has 0 in every indicator
  column of that column; the indicator columns are those of the non-null values, so
  none stands for the null; and they are part of the result of the stage.
\<close>

theorem fila_nula_sin_indicador:
  assumes "(n, Objeto xs) \<in> set datos" and "seleccionada (n, Objeto xs)"
    and "i < length xs" and "xs ! i = None"
  shows "set (get_dummies (n, Objeto xs)) \<subseteq> set (etapa5 datos)
     \<and> (\<forall>c\<in>set (get_dummies (n, Objeto xs)). \<exists>ys. snd c = Numerica ys \<and> ys ! i = Some 0)
     \<and> suma_fila (get_dummies (n, Objeto xs)) i = 0
     \<and> map fst (get_dummies (n, Objeto xs)) = map (\<lambda>v. n @ ''_'' @ v) (niveles xs)
     \<and> set (niveles xs) = {v. Some v \<in> set xs}
     \<and> length (get_dummies (n, Objeto xs)) = card {v. Some v \<in> set xs}"
proof -
  have "\<exists>ys. snd c = Numerica ys \<and> ys ! i = Some 0" if "c \<in> set (get_dummies (n, Objeto xs))" for c
    using that assms(3,4) by (auto simp: indicador_def)
  moreover have "suma_fila (get_dummies (n, Objeto xs)) i = 0"
    using suma_fila_dummies [OF assms(3), of n] assms(4) by simp
  moreover have "map fst (get_dummies (n, Objeto xs)) = map (\<lambda>v. n @ ''_'' @ v) (niveles xs)"
    by (simp add: comp_def)
  ultimately show ?thesis
    using dummies_en_etapa5 [OF assms(1,2)] set_niveles [of xs]
    by (simp add: length_niveles nunique_card)
qed

text \<open>The second row of the foot column is null.\<close>

theorem fila_nula_sin_indicador_witness:
  "(''preferred_foot'', Objeto [Some ''right'', None, Some ''left'', Some ''both'']) \<in> set datos_pie
   \<and> seleccionada (''preferred_foot'', Objeto [Some ''right'', None, Some ''left'', Some ''both''])
   \<and> (1::nat) < length [Some ''right'', None, Some ''left'', Some ''both'']
   \<and> [Some ''right'', None, Some ''left'', Some ''both''] ! 1 = None
   \<and> suma_fila (get_dummies (''preferred_foot'', Objeto [Some ''right'', None, Some ''left'', Some ''both''])) 1 = 0
   \<and> map fst (get_dummies (''preferred_foot'', Objeto [Some ''right'', None, Some ''left'', Some ''both'']))
       = [''preferred_foot_both'', ''preferred_foot_left'', ''preferred_foot_right'']"
proof -
  let ?xs = "[Some ''right'', None, Some ''left'', Some ''both'']"
  have a: "(''preferred_foot'', Objeto ?xs) \<in> set datos_pie" by (simp add: datos_pie_def)
  have b: "seleccionada (''preferred_foot'', Objeto ?xs)" by code_simp
  have c: "(1::nat) < length ?xs" by simp
  have d: "?xs ! 1 = None" by simp
  have e: "niveles ?xs = [''both'', ''left'', ''right'']" by code_simp
  from fila_nula_sin_indicador [OF a b c d] a b c d e show ?thesis by simp
qed

subsection \<open>Indicator columns through normalisation\<close>













end
